theory Spec2Isabelle
  imports Complex_Main
begin

section \<open>Classification metrics of rectools (rectools/metrics/classification.py)\<close>

subsection \<open>Floating-point values\<close>

text \<open>
  The metric values are float64 numbers of numpy/pandas. The model keeps the four kinds of
  value the code distinguishes: a finite number, the two infinities and NaN. Finite
  arithmetic is idealised as exact arithmetic on the reals (no rounding, no overflow of a
  finite result to an infinity, one zero without a sign); the special values follow
  IEEE 754, which is what numpy computes: \<open>0/0\<close> is NaN, \<open>x/0\<close> is an infinity with the
  sign of \<open>x\<close>, NaN propagates through every operation and compares unequal to everything.
  The one operation of the code on a Python float rather than a numpy value, the power
  \<open>self.beta**2\<close>, raises OverflowError instead of returning an infinity; it is modelled
  with its exception where \<open>F1Beta\<close> is defined.
\<close>

datatype float64 = Fin real | PInf | NInf | NaN

fun isnan :: "float64 \<Rightarrow> bool" where
  "isnan NaN = True"
| "isnan _ = False"

fun isfinite :: "float64 \<Rightarrow> bool" where
  "isfinite (Fin _) = True"
| "isfinite _ = False"

text \<open>The infinity with the sign of a nonzero real.\<close>

definition inf_of_sign :: "real \<Rightarrow> float64" where
  "inf_of_sign s = (if 0 < s then PInf else NInf)"

fun fadd :: "float64 \<Rightarrow> float64 \<Rightarrow> float64" where
  "fadd NaN _ = NaN"
| "fadd _ NaN = NaN"
| "fadd (Fin a) (Fin b) = Fin (a + b)"
| "fadd (Fin a) PInf = PInf"
| "fadd (Fin a) NInf = NInf"
| "fadd PInf (Fin b) = PInf"
| "fadd NInf (Fin b) = NInf"
| "fadd PInf PInf = PInf"
| "fadd NInf NInf = NInf"
| "fadd PInf NInf = NaN"
| "fadd NInf PInf = NaN"

fun fmul :: "float64 \<Rightarrow> float64 \<Rightarrow> float64" where
  "fmul NaN _ = NaN"
| "fmul _ NaN = NaN"
| "fmul (Fin a) (Fin b) = Fin (a * b)"
| "fmul (Fin a) PInf = (if a = 0 then NaN else inf_of_sign a)"
| "fmul (Fin a) NInf = (if a = 0 then NaN else inf_of_sign (- a))"
| "fmul PInf (Fin b) = (if b = 0 then NaN else inf_of_sign b)"
| "fmul NInf (Fin b) = (if b = 0 then NaN else inf_of_sign (- b))"
| "fmul PInf PInf = PInf"
| "fmul NInf NInf = PInf"
| "fmul PInf NInf = NInf"
| "fmul NInf PInf = NInf"

fun fdiv :: "float64 \<Rightarrow> float64 \<Rightarrow> float64" where
  "fdiv NaN _ = NaN"
| "fdiv _ NaN = NaN"
| "fdiv (Fin a) (Fin b) =
     (if b \<noteq> 0 then Fin (a / b) else if a = 0 then NaN else inf_of_sign a)"
| "fdiv (Fin a) PInf = Fin 0"
| "fdiv (Fin a) NInf = Fin 0"
| "fdiv PInf (Fin b) = (if 0 \<le> b then PInf else NInf)"
| "fdiv NInf (Fin b) = (if 0 \<le> b then NInf else PInf)"
| "fdiv PInf PInf = NaN"
| "fdiv PInf NInf = NaN"
| "fdiv NInf PInf = NaN"
| "fdiv NInf NInf = NaN"

text \<open>\<open>np.sqrt\<close>: NaN on a negative argument.\<close>

fun fsqrt :: "float64 \<Rightarrow> float64" where
  "fsqrt (Fin a) = (if a < 0 then NaN else Fin (sqrt a))"
| "fsqrt PInf = PInf"
| "fsqrt NInf = NaN"
| "fsqrt NaN = NaN"

text \<open>The comparison \<open>==\<close> of floats: false as soon as one side is NaN.\<close>

fun feq :: "float64 \<Rightarrow> float64 \<Rightarrow> bool" where
  "feq (Fin a) (Fin b) = (a = b)"
| "feq PInf PInf = True"
| "feq NInf NInf = True"
| "feq (Fin a) PInf = False"
| "feq (Fin a) NInf = False"
| "feq PInf (Fin b) = False"
| "feq NInf (Fin b) = False"
| "feq PInf NInf = False"
| "feq NInf PInf = False"
| "feq NaN _ = False"
| "feq _ NaN = False"

text \<open>An integer (an int64 cell or a Python int) converted to float64.\<close>

definition of_int64 :: "int \<Rightarrow> float64" where
  "of_int64 i = Fin (of_int i)"

text \<open>
  True division of an integer column by an integer (\<open>series / k\<close>, \<open>series / series\<close>):
  pandas converts both sides to float64 and does not raise on a zero divisor.
\<close>

definition truediv :: "int \<Rightarrow> int \<Rightarrow> float64" where
  "truediv a b = fdiv (of_int64 a) (of_int64 b)"

text \<open>
  The product of int64 columns wraps around silently in numpy. \<open>wrap64\<close> is the
  two's-complement value of an integer in 64 bits.
\<close>

definition wrap64 :: "int \<Rightarrow> int" where
  "wrap64 x = (x + 2 ^ 63) mod 2 ^ 64 - 2 ^ 63"

subsection \<open>Tables\<close>

type_synonym user = nat
type_synonym item = nat

text \<open>
  Modelled from the spec: the row type of the merged table, which \<open>merge_reco\<close>
  (rectools/metrics/base.py, not part of the sources at hand) produces. A merged row
  carries the user, the item, the rank of the item in the user's recommendations (absent
  when the item was not recommended) and a marker telling whether the user interacted with
  the item. The code below reads the columns \<open>Columns.User\<close>, \<open>Columns.Item\<close> and
  \<open>Columns.Rank\<close> only.
\<close>

record merged_row =
  User :: user
  Item :: item
  Rank :: "int option"
  interacted :: bool

type_synonym merged_df = "merged_row list"

text \<open>
  A row of the confusion table: the index (user id) and the columns \<open>__LIKED\<close>,
  \<open>__TP\<close>, \<open>__FP\<close>, \<open>__FN\<close>. The cells are int64; sums and differences of row counts,
  \<open>k\<close> and the catalog size are taken on \<open>int\<close> (they stay far inside the int64 range
  for every table that fits in memory), products are wrapped where the code multiplies.
\<close>

record conf_row =
  uid :: user
  LIKED :: int
  TP :: int
  FP :: int
  FN :: int

text \<open>
  The confusion table either lacks the column \<open>__TN\<close> (as \<open>calc_confusions\<close> returns it)
  or has it, one value for each row.
\<close>

datatype confusion_df = NoTN "conf_row list" | WithTN "(conf_row \<times> int) list"

fun conf_rows :: "confusion_df \<Rightarrow> conf_row list" where
  "conf_rows (NoTN rs) = rs"
| "conf_rows (WithTN rts) = map fst rts"

text \<open>\<open>TN in confusion_df\<close>\<close>

fun has_TN :: "confusion_df \<Rightarrow> bool" where
  "has_TN (NoTN _) = False"
| "has_TN (WithTN _) = True"

text \<open>A series of per-user metric values, indexed by user id.\<close>

type_synonym series = "(user \<times> float64) list"

text \<open>The catalog is a collection of item ids; the code takes its \<open>len\<close> only.\<close>

type_synonym catalog = "item list"

definition len :: "catalog \<Rightarrow> int" where
  "len c = int (length c)"

subsection \<open>calc\_confusions\<close>

text \<open>
  \<open>merged.groupby(Columns.User)\<close> has one group for each user id of the table, in
  increasing order of the id.
\<close>

definition groupby_keys :: "merged_df \<Rightarrow> user list" where
  "groupby_keys merged = sort (remdups (map User merged))"

definition group_of :: "merged_df \<Rightarrow> user \<Rightarrow> merged_df" where
  "group_of merged u = filter (\<lambda>m. User m = u) merged"

text \<open>\<open>__is_hit = rank <= k\<close>: a comparison with a missing rank (NaN) is false.\<close>

definition is_hit :: "int \<Rightarrow> merged_row \<Rightarrow> bool" where
  "is_hit k m = (case Rank m of None \<Rightarrow> False | Some r \<Rightarrow> r \<le> k)"

text \<open>
  \<open>agg("size")\<close> counts the rows of a group, \<open>agg("sum")\<close> of the boolean column counts
  its hits.
\<close>

definition calc_confusions :: "merged_df \<Rightarrow> int \<Rightarrow> confusion_df" where
  "calc_confusions merged k =
     NoTN (map (\<lambda>u.
       let liked = int (length (group_of merged u));
           tp = int (length (filter (is_hit k) (group_of merged u)))
       in \<lparr>uid = u, LIKED = liked, TP = tp, FP = k - tp, FN = liked - tp\<rparr>)
       (groupby_keys merged))"

subsection \<open>The metric classes\<close>

text \<open>
  \<open>DebiasMetric\<close> (rectools/metrics/base.py) contributes the attributes \<open>iqr_coef\<close> and
  \<open>random_state\<close> and the method \<open>make_downsample\<close>.
\<close>

record debias =
  iqr_coef :: real
  random_state :: int

text \<open>
  The two class hierarchies. Each constructor is a class, its arguments are the instance
  attributes (\<open>k\<close>, then \<open>beta\<close>, then those of \<open>DebiasMetric\<close>). The first constructor
  of each type is the base class, whose \<open>_calc_per_user_from_confusion_df\<close> raises
  NotImplementedError.
\<close>

datatype simple_metric =
    SimpleClassificationMetric int
  | Precision int
  | Recall int
  | F1Beta int float64
  | DebiasPrecision int debias
  | DebiasRecall int debias
  | DebiasF1Beta int float64 debias

datatype classification_metric =
    ClassificationMetric int
  | Accuracy int
  | MCC int
  | DebiasAccuracy int debias
  | DebiasMCC int debias

text \<open>
  A value of the \<open>metrics\<close> dictionary: an instance of \<open>SimpleClassificationMetric\<close>, an
  instance of \<open>ClassificationMetric\<close>, or any other object with an attribute \<open>k\<close>.
\<close>

datatype metric =
    Simple simple_metric
  | Classification classification_metric
  | Unexpected int

datatype error = ValueError | TypeError | NotImplementedError | KeyError | OverflowError

fun simple_k :: "simple_metric \<Rightarrow> int" where
  "simple_k (SimpleClassificationMetric k) = k"
| "simple_k (Precision k) = k"
| "simple_k (Recall k) = k"
| "simple_k (F1Beta k b) = k"
| "simple_k (DebiasPrecision k d) = k"
| "simple_k (DebiasRecall k d) = k"
| "simple_k (DebiasF1Beta k b d) = k"

fun classification_k :: "classification_metric \<Rightarrow> int" where
  "classification_k (ClassificationMetric k) = k"
| "classification_k (Accuracy k) = k"
| "classification_k (MCC k) = k"
| "classification_k (DebiasAccuracy k d) = k"
| "classification_k (DebiasMCC k d) = k"

fun metric_k :: "metric \<Rightarrow> int" where
  "metric_k (Simple m) = simple_k m"
| "metric_k (Classification m) = classification_k m"
| "metric_k (Unexpected k) = k"

text \<open>
  \<open>isinstance(metric, (DebiasPrecision, DebiasRecall, DebiasF1Beta, DebiasAccuracy,
  DebiasMCC))\<close>, returning the attributes that \<open>make_downsample\<close> reads.
\<close>

fun isinstance_Debias :: "metric \<Rightarrow> debias option" where
  "isinstance_Debias (Simple (DebiasPrecision k d)) = Some d"
| "isinstance_Debias (Simple (DebiasRecall k d)) = Some d"
| "isinstance_Debias (Simple (DebiasF1Beta k b d)) = Some d"
| "isinstance_Debias (Classification (DebiasAccuracy k d)) = Some d"
| "isinstance_Debias (Classification (DebiasMCC k d)) = Some d"
| "isinstance_Debias _ = None"

subsection \<open>The formulas\<close>

text \<open>\<open>Precision\<close>: \<open>confusion_df[TP] / self.k\<close>\<close>

definition Precision_row :: "int \<Rightarrow> conf_row \<Rightarrow> float64" where
  "Precision_row k r = truediv (TP r) k"

text \<open>\<open>Recall\<close>: \<open>confusion_df[TP] / confusion_df[LIKED]\<close>\<close>

definition Recall_row :: "conf_row \<Rightarrow> float64" where
  "Recall_row r = truediv (TP r) (LIKED r)"

text \<open>
  \<open>self.beta**2\<close> is the power of a Python float, not of a numpy value: it raises
  OverflowError when the square of a finite number is out of the float64 range, which is
  the case exactly for the floats of absolute value \<open>2^512\<close> and more. The square of an
  infinity is the positive infinity, that of NaN is NaN.
\<close>

fun square_overflows :: "float64 \<Rightarrow> bool" where
  "square_overflows (Fin x) = (2 ^ 512 \<le> \<bar>x\<bar>)"
| "square_overflows _ = False"

definition float_square :: "float64 \<Rightarrow> error + float64" where
  "float_square beta = (if square_overflows beta then Inl OverflowError else Inr (fmul beta beta))"

text \<open>
  \<open>F1Beta\<close>: the formula, then the assignment \<open>f1.loc[(p_k == 0.0) & (r_k == 0.0)] = 0.0\<close>.
  \<open>beta_sqr\<close> is computed once, before the columns are touched.
\<close>

definition F1Beta_formula :: "float64 \<Rightarrow> float64 \<Rightarrow> float64 \<Rightarrow> float64" where
  "F1Beta_formula beta_sqr p_k r_k =
     fdiv (fmul (fmul (fadd (Fin 1) beta_sqr) p_k) r_k) (fadd (fmul beta_sqr p_k) r_k)"

definition F1Beta_row :: "int \<Rightarrow> float64 \<Rightarrow> conf_row \<Rightarrow> float64" where
  "F1Beta_row k beta_sqr r =
     (let p_k = truediv (TP r) k;
          r_k = truediv (TP r) (LIKED r);
          f1 = F1Beta_formula beta_sqr p_k r_k
      in if feq p_k (Fin 0) \<and> feq r_k (Fin 0) then Fin 0 else f1)"

definition F1Beta_calc_per_user :: "int \<Rightarrow> float64 \<Rightarrow> confusion_df \<Rightarrow> error + series" where
  "F1Beta_calc_per_user k beta df =
     (case float_square beta of
        Inl e \<Rightarrow> Inl e
      | Inr beta_sqr \<Rightarrow> Inr (map (\<lambda>r. (uid r, F1Beta_row k beta_sqr r)) (conf_rows df)))"

text \<open>\<open>Accuracy\<close>: \<open>(confusion_df[TP] + confusion_df[TN]) / len(catalog)\<close>\<close>

definition Accuracy_row :: "catalog \<Rightarrow> conf_row \<times> int \<Rightarrow> float64" where
  "Accuracy_row c rt = (case rt of (r, tn) \<Rightarrow> truediv (TP r + tn) (len c))"

text \<open>
  \<open>MCC\<close>: numerator and the product under the root are computed on int64 columns, the
  root and the quotient on float64; then \<open>mcc.loc[mcc_denominator == 0.0] = 0.0\<close>.
\<close>

definition mcc_numerator :: "conf_row \<times> int \<Rightarrow> int" where
  "mcc_numerator rt = (case rt of (r, tn) \<Rightarrow> wrap64 (TP r * tn - FP r * FN r))"

definition mcc_product :: "conf_row \<times> int \<Rightarrow> int" where
  "mcc_product rt =
     (case rt of (r, tn) \<Rightarrow> wrap64 ((TP r + FP r) * (TP r + FN r) * (tn + FP r) * (tn + FN r)))"

definition mcc_denominator :: "conf_row \<times> int \<Rightarrow> float64" where
  "mcc_denominator rt = fsqrt (of_int64 (mcc_product rt))"

definition MCC_row :: "conf_row \<times> int \<Rightarrow> float64" where
  "MCC_row rt =
     (let mcc = fdiv (of_int64 (mcc_numerator rt)) (mcc_denominator rt)
      in if feq (mcc_denominator rt) (Fin 0) then Fin 0 else mcc)"

subsection \<open>SimpleClassificationMetric\<close>

text \<open>\<open>_calc_per_user_from_confusion_df\<close>, by the class of \<open>self\<close>.\<close>

fun Simple_calc_per_user :: "simple_metric \<Rightarrow> confusion_df \<Rightarrow> error + series" where
  "Simple_calc_per_user (SimpleClassificationMetric k) df = Inl NotImplementedError"
| "Simple_calc_per_user (Precision k) df =
     Inr (map (\<lambda>r. (uid r, Precision_row k r)) (conf_rows df))"
| "Simple_calc_per_user (Recall k) df =
     Inr (map (\<lambda>r. (uid r, Recall_row r)) (conf_rows df))"
| "Simple_calc_per_user (F1Beta k b) df = F1Beta_calc_per_user k b df"
| "Simple_calc_per_user (DebiasPrecision k d) df =
     Inr (map (\<lambda>r. (uid r, Precision_row k r)) (conf_rows df))"
| "Simple_calc_per_user (DebiasRecall k d) df =
     Inr (map (\<lambda>r. (uid r, Recall_row r)) (conf_rows df))"
| "Simple_calc_per_user (DebiasF1Beta k b d) df = F1Beta_calc_per_user k b df"

text \<open>\<open>calc_per_user_from_confusion_df\<close> (the \<open>rename\<close> drops the name of the series).\<close>

definition Simple_calc_per_user_from_confusion_df ::
  "simple_metric \<Rightarrow> confusion_df \<Rightarrow> error + series" where
  "Simple_calc_per_user_from_confusion_df m df = Simple_calc_per_user m df"

text \<open>
  \<open>Series.mean()\<close> skips the NaN entries; the mean of no entries is NaN.
\<close>

definition mean :: "series \<Rightarrow> float64" where
  "mean s =
     (let vals = filter (\<lambda>v. \<not> isnan v) (map snd s)
      in if vals = [] then NaN
         else fdiv (foldl fadd (Fin 0) vals) (of_int64 (int (length vals))))"

definition Simple_calc_from_confusion_df ::
  "simple_metric \<Rightarrow> confusion_df \<Rightarrow> error + float64" where
  "Simple_calc_from_confusion_df m df =
     (case Simple_calc_per_user_from_confusion_df m df of
        Inl e \<Rightarrow> Inl e
      | Inr per_user \<Rightarrow> Inr (mean per_user))"

subsection \<open>ClassificationMetric\<close>

text \<open>\<open>_calc_per_user_from_confusion_df\<close>, on a table that has the column \<open>__TN\<close>.\<close>

fun Classification_calc_per_user ::
  "classification_metric \<Rightarrow> (conf_row \<times> int) list \<Rightarrow> catalog \<Rightarrow> error + series" where
  "Classification_calc_per_user (ClassificationMetric k) rts c = Inl NotImplementedError"
| "Classification_calc_per_user (Accuracy k) rts c =
     Inr (map (\<lambda>rt. (uid (fst rt), Accuracy_row c rt)) rts)"
| "Classification_calc_per_user (MCC k) rts c =
     Inr (map (\<lambda>rt. (uid (fst rt), MCC_row rt)) rts)"
| "Classification_calc_per_user (DebiasAccuracy k d) rts c =
     Inr (map (\<lambda>rt. (uid (fst rt), Accuracy_row c rt)) rts)"
| "Classification_calc_per_user (DebiasMCC k d) rts c =
     Inr (map (\<lambda>rt. (uid (fst rt), MCC_row rt)) rts)"

text \<open>
  \<open>if TN not in confusion_df: confusion_df[TN] = len(catalog) - self.k - confusion_df[FN]\<close>.
  The assignment changes the caller's table, so the table is returned.
\<close>

fun set_TN :: "int \<Rightarrow> catalog \<Rightarrow> confusion_df \<Rightarrow> (conf_row \<times> int) list" where
  "set_TN k c (NoTN rs) = map (\<lambda>r. (r, len c - k - FN r)) rs"
| "set_TN k c (WithTN rts) = rts"

definition Classification_calc_per_user_from_confusion_df ::
  "classification_metric \<Rightarrow> confusion_df \<Rightarrow> catalog \<Rightarrow> confusion_df \<times> (error + series)" where
  "Classification_calc_per_user_from_confusion_df m df c =
     (let rts = set_TN (classification_k m) c df
      in (WithTN rts, Classification_calc_per_user m rts c))"

definition Classification_calc_from_confusion_df ::
  "classification_metric \<Rightarrow> confusion_df \<Rightarrow> catalog \<Rightarrow> confusion_df \<times> (error + float64)" where
  "Classification_calc_from_confusion_df m df c =
     (case Classification_calc_per_user_from_confusion_df m df c of
        (df', Inl e) \<Rightarrow> (df', Inl e)
      | (df', Inr per_user) \<Rightarrow> (df', Inr (mean per_user)))"

subsection \<open>calc\_classification\_metrics\<close>

text \<open>
  The \<open>metrics\<close> dictionary, in insertion order; its keys are distinct. The result
  dictionary has the same form.
\<close>

type_synonym metrics = "(string \<times> metric) list"

type_synonym results = "(string \<times> float64) list"

text \<open>
  \<open>make_downsample\<close> is a method of \<open>DebiasMetric\<close> (rectools/metrics/base.py); the driver
  takes it as a parameter: a function of the attributes of the metric and the table.
\<close>

type_synonym downsample = "debias \<Rightarrow> merged_df \<Rightarrow> merged_df"

text \<open>
  The calls of \<open>calc_confusions\<close> are recorded: each call appends its arguments to a log
  that is threaded through the driver.
\<close>

type_synonym call_log = "(merged_df \<times> int) list"

text \<open>
  \<open>k_map[metric.k].append(name)\<close> on a \<open>defaultdict(list)\<close>: a new key is added at the
  end, an existing key keeps its place.
\<close>

fun k_map_append :: "(int \<times> string list) list \<Rightarrow> int \<Rightarrow> string \<Rightarrow> (int \<times> string list) list" where
  "k_map_append [] k name = [(k, [name])]"
| "k_map_append ((k', names) # km) k name =
     (if k' = k then (k', names @ [name]) # km else (k', names) # k_map_append km k name)"

fun build_k_map :: "metrics \<Rightarrow> (int \<times> string list) list \<Rightarrow> (int \<times> string list) list" where
  "build_k_map [] km = km"
| "build_k_map ((name, metric) # ms) km = build_k_map ms (k_map_append km (metric_k metric) name)"

text \<open>\<open>results[metric_name] = res\<close>\<close>

fun dict_set :: "results \<Rightarrow> string \<Rightarrow> float64 \<Rightarrow> results" where
  "dict_set [] name v = [(name, v)]"
| "dict_set ((n, w) # rs) name v =
     (if n = name then (n, v) # rs else (n, w) # dict_set rs name v)"

text \<open>
  The body of the inner loop, from the choice of the table to the value \<open>res\<close>: the
  confusion table is computed, then the metric is dispatched on its class.
\<close>

definition eval_metric ::
  "downsample \<Rightarrow> merged_df \<Rightarrow> catalog option \<Rightarrow> int \<Rightarrow> metric \<Rightarrow> call_log
     \<Rightarrow> (error + float64) \<times> call_log" where
  "eval_metric make_downsample merged catalog k metric calls =
     (let table = (case isinstance_Debias metric of
                     Some d \<Rightarrow> make_downsample d merged
                   | None \<Rightarrow> merged);
          confusion_df = calc_confusions table k;
          calls' = calls @ [(table, k)]
      in (case metric of
            Simple m \<Rightarrow> Simple_calc_from_confusion_df m confusion_df
          | Classification m \<Rightarrow>
              (case catalog of
                 None \<Rightarrow> Inl ValueError
               | Some c \<Rightarrow> snd (Classification_calc_from_confusion_df m confusion_df c))
          | Unexpected _ \<Rightarrow> Inl TypeError,
          calls'))"

text \<open>\<open>for metric_name in k_metrics\<close>\<close>

fun metrics_loop ::
  "downsample \<Rightarrow> metrics \<Rightarrow> merged_df \<Rightarrow> catalog option \<Rightarrow> int \<Rightarrow> string list
     \<Rightarrow> results \<Rightarrow> call_log \<Rightarrow> (error + results) \<times> call_log" where
  "metrics_loop ds metrics merged catalog k [] results calls = (Inr results, calls)"
| "metrics_loop ds metrics merged catalog k (metric_name # names) results calls =
     (case map_of metrics metric_name of
        None \<Rightarrow> (Inl KeyError, calls)
      | Some metric \<Rightarrow>
          (case eval_metric ds merged catalog k metric calls of
             (Inl e, calls') \<Rightarrow> (Inl e, calls')
           | (Inr res, calls') \<Rightarrow>
               metrics_loop ds metrics merged catalog k names
                 (dict_set results metric_name res) calls'))"

text \<open>\<open>for k, k_metrics in k_map.items()\<close>\<close>

fun k_loop ::
  "downsample \<Rightarrow> metrics \<Rightarrow> merged_df \<Rightarrow> catalog option \<Rightarrow> (int \<times> string list) list
     \<Rightarrow> results \<Rightarrow> call_log \<Rightarrow> (error + results) \<times> call_log" where
  "k_loop ds metrics merged catalog [] results calls = (Inr results, calls)"
| "k_loop ds metrics merged catalog ((k, k_metrics) # km) results calls =
     (case metrics_loop ds metrics merged catalog k k_metrics results calls of
        (Inl e, calls') \<Rightarrow> (Inl e, calls')
      | (Inr results', calls') \<Rightarrow> k_loop ds metrics merged catalog km results' calls')"

text \<open>The driver with the log of its calls of \<open>calc_confusions\<close>, and the driver.\<close>

definition calc_classification_metrics_logged ::
  "downsample \<Rightarrow> metrics \<Rightarrow> merged_df \<Rightarrow> catalog option \<Rightarrow> (error + results) \<times> call_log" where
  "calc_classification_metrics_logged ds metrics merged catalog =
     k_loop ds metrics merged catalog (build_k_map metrics []) [] []"


subsection \<open>Notions used in the statements\<close>

text \<open>The row of a user in a confusion table, if the table has one.\<close>

definition lookup_user :: "confusion_df \<Rightarrow> user \<Rightarrow> conf_row option" where
  "lookup_user df u = find (\<lambda>r. uid r = u) (conf_rows df)"

text \<open>
  The true positives in the words of the specification: the rows of the user whose rank
  is defined and at most \<open>k\<close> and whose interaction marker is set.
\<close>

definition spec_TP :: "merged_df \<Rightarrow> int \<Rightarrow> user \<Rightarrow> int" where
  "spec_TP merged k u =
     int (length (filter (\<lambda>m. User m = u
        \<and> (case Rank m of None \<Rightarrow> False | Some r \<Rightarrow> r \<le> k) \<and> interacted m) merged))"

text \<open>The ranks that are defined in the rows of a user.\<close>

definition user_ranks :: "merged_df \<Rightarrow> user \<Rightarrow> int list" where
  "user_ranks merged u = List.map_filter Rank (group_of merged u)"

text \<open>
  The order in which the driver reaches the metrics: the names of the groups of \<open>k_map\<close>
  one group after the other, each name looked up in \<open>metrics\<close>.
\<close>

definition names_of :: "(int \<times> string list) list \<Rightarrow> string list" where
  "names_of km = concat (map snd km)"









section \<open>Properties\<close>

subsection \<open>The confusion table\<close>

lemma find_map_key:
  "(\<And>x. key (f x) = x) \<Longrightarrow>
     find (\<lambda>r. key r = u) (map f xs) = (if u \<in> set xs then Some (f u) else None)"
  by (induction xs) auto

lemma lookup_user_calc_confusions:
  "lookup_user (calc_confusions merged k) u =
     (if u \<in> User ` set merged
      then Some \<lparr>uid = u, LIKED = int (length (group_of merged u)),
                 TP = int (length (filter (is_hit k) (group_of merged u))),
                 FP = k - int (length (filter (is_hit k) (group_of merged u))),
                 FN = int (length (group_of merged u))
                      - int (length (filter (is_hit k) (group_of merged u)))\<rparr>
      else None)"
  unfolding lookup_user_def calc_confusions_def conf_rows.simps groupby_keys_def
  by (subst find_map_key) (auto simp: Let_def)

lemma conf_row_of_calc_confusions:
  assumes "r \<in> set (conf_rows (calc_confusions merged k))"
  obtains u where "u \<in> User ` set merged"
    and "r = \<lparr>uid = u, LIKED = int (length (group_of merged u)),
               TP = int (length (filter (is_hit k) (group_of merged u))),
               FP = k - int (length (filter (is_hit k) (group_of merged u))),
               FN = int (length (group_of merged u))
                    - int (length (filter (is_hit k) (group_of merged u)))\<rparr>"
  using assms by (auto simp: calc_confusions_def groupby_keys_def Let_def)

text \<open>
  For every user of the merged table, \<open>calc_confusions\<close> has a row, and its \<open>TP\<close> is the
  number of the user's rows whose rank is defined and at most \<open>k\<close>; the interaction marker
  is not read. On a table in which every row of the user carries the marker, this is the
  count of the specification.
\<close>

lemma calc_confusions_TP_ranked_rows:
  assumes "u \<in> User ` set merged"
  shows "\<exists>r. lookup_user (calc_confusions merged k) u = Some r \<and>
     TP r = int (length (filter (\<lambda>m. User m = u
                \<and> (case Rank m of None \<Rightarrow> False | Some x \<Rightarrow> x \<le> k)) merged)) \<and>
     ((\<forall>m\<in>set merged. User m = u \<longrightarrow> interacted m) \<longrightarrow> TP r = spec_TP merged k u)"
proof -
  have hits: "filter (is_hit k) (group_of merged u) =
      filter (\<lambda>m. User m = u \<and> (case Rank m of None \<Rightarrow> False | Some x \<Rightarrow> x \<le> k)) merged"
    by (auto simp: group_of_def is_hit_def intro: filter_cong)
  have marked: "filter (\<lambda>m. User m = u
          \<and> (case Rank m of None \<Rightarrow> False | Some x \<Rightarrow> x \<le> k) \<and> interacted m) merged
      = filter (\<lambda>m. User m = u \<and> (case Rank m of None \<Rightarrow> False | Some x \<Rightarrow> x \<le> k)) merged"
    if "\<forall>m\<in>set merged. User m = u \<longrightarrow> interacted m"
    using that by (auto intro: filter_cong)
  show ?thesis
    using assms by (simp add: lookup_user_calc_confusions hits spec_TP_def marked)
qed


lemma hits_as_ranks:
  "length (filter (is_hit k) ms) = length (filter (\<lambda>x. x \<le> k) (List.map_filter Rank ms))"
  by (induction ms) (auto simp: is_hit_def List.map_filter_simps split: option.splits)

lemma distinct_ranks_bound:
  assumes "distinct xs" and "\<forall>x\<in>set xs. (1::int) \<le> x" and "0 \<le> k"
  shows "int (length (filter (\<lambda>x. x \<le> k) xs)) \<le> k"
proof -
  have d: "distinct (filter (\<lambda>x. x \<le> k) xs)"
    using assms(1) by simp
  have sub: "set (filter (\<lambda>x. x \<le> k) xs) \<subseteq> {1..k}"
    using assms(2) by auto
  have "length (filter (\<lambda>x. x \<le> k) xs) = card (set (filter (\<lambda>x. x \<le> k) xs))"
    using distinct_card [OF d] by simp
  also have "\<dots> \<le> card {1..k}"
    using sub by (intro card_mono) auto
  also have "\<dots> = nat k"
    by simp
  finally show ?thesis
    using assms(3) by linarith
qed

text \<open>
  C3, as the code has it. Every row that \<open>calc_confusions\<close> returns satisfies
  \<open>TP + FP = k\<close> and \<open>TP + FN = liked\<close>, and \<open>liked\<close>, \<open>TP\<close> and \<open>FN\<close> are not negative.
  \<open>FP\<close> is not negative when \<open>k\<close> is not negative and the defined ranks of the user are
  distinct positive integers.
\<close>

theorem calc_confusions_invariant:
  assumes "r \<in> set (conf_rows (calc_confusions merged k))"
  shows "TP r + FP r = k \<and> TP r + FN r = LIKED r
     \<and> 0 \<le> LIKED r \<and> 0 \<le> TP r \<and> 0 \<le> FN r
     \<and> (0 \<le> k \<and> distinct (user_ranks merged (uid r))
          \<and> (\<forall>x\<in>set (user_ranks merged (uid r)). 1 \<le> x) \<longrightarrow> 0 \<le> FP r)"
proof -
  from assms obtain u where r:
    "r = \<lparr>uid = u, LIKED = int (length (group_of merged u)),
          TP = int (length (filter (is_hit k) (group_of merged u))),
          FP = k - int (length (filter (is_hit k) (group_of merged u))),
          FN = int (length (group_of merged u))
               - int (length (filter (is_hit k) (group_of merged u)))\<rparr>"
    by (rule conf_row_of_calc_confusions)
  have le: "length (filter (is_hit k) (group_of merged u)) \<le> length (group_of merged u)"
    by (rule length_filter_le)
  have basic: "TP r + FP r = k \<and> TP r + FN r = LIKED r
     \<and> 0 \<le> LIKED r \<and> 0 \<le> TP r \<and> 0 \<le> FN r"
    using le by (simp add: r)
  have fp: "0 \<le> FP r"
    if "0 \<le> k" and "distinct (user_ranks merged (uid r))"
      and "\<forall>x\<in>set (user_ranks merged (uid r)). 1 \<le> x"
  proof -
    have "int (length (filter (\<lambda>x. x \<le> k) (user_ranks merged (uid r)))) \<le> k"
      using that by (intro distinct_ranks_bound) auto
    then have "TP r \<le> k"
      by (simp add: r hits_as_ranks user_ranks_def)
    with basic show ?thesis
      by linarith
  qed
  from basic fp show ?thesis
    by blast
qed

theorem calc_confusions_invariant_witness:
  "\<exists>r \<in> set (conf_rows (calc_confusions
           [\<lparr>User = 7, Item = 1, Rank = Some 1, interacted = True\<rparr>,
            \<lparr>User = 7, Item = 2, Rank = None, interacted = True\<rparr>] 2)).
      TP r + FP r = 2 \<and> TP r + FN r = LIKED r
      \<and> 0 \<le> LIKED r \<and> 0 \<le> TP r \<and> 0 \<le> FN r \<and> 0 \<le> FP r"
proof -
  let ?merged = "[\<lparr>User = 7, Item = 1, Rank = Some 1, interacted = True\<rparr>,
                  \<lparr>User = 7, Item = 2, Rank = None, interacted = True\<rparr>]"
  let ?r = "\<lparr>uid = 7, LIKED = 2, TP = 1, FP = 1, FN = 1\<rparr>"
  have mem: "?r \<in> set (conf_rows (calc_confusions ?merged 2))"
    by (simp add: calc_confusions_def groupby_keys_def group_of_def is_hit_def)
  have ranks: "user_ranks ?merged 7 = [1]"
    by (simp add: user_ranks_def group_of_def List.map_filter_simps)
  from calc_confusions_invariant [OF mem] ranks
  have "TP ?r + FP ?r = 2 \<and> TP ?r + FN ?r = LIKED ?r
      \<and> 0 \<le> LIKED ?r \<and> 0 \<le> TP ?r \<and> 0 \<le> FN ?r \<and> 0 \<le> FP ?r"
    by simp
  with mem show ?thesis
    by blast
qed

text \<open>
  C3, as the specification states it (for any merged table and any \<open>k\<close>), fails: at
  \<open>k = -1\<close> the row of a user has \<open>FP = -1\<close>.
\<close>

theorem calc_confusions_invariant_counterexample:
  "conf_rows (calc_confusions [\<lparr>User = 0, Item = 0, Rank = None, interacted = True\<rparr>] (- 1))
     = [\<lparr>uid = 0, LIKED = 1, TP = 0, FP = - 1, FN = 1\<rparr>]"
  by (simp add: calc_confusions_def groupby_keys_def group_of_def is_hit_def)

subsection \<open>Undefined values: Recall and F1Beta\<close>

lemma fmul_NaN_right: "fmul x NaN = NaN"
  by (cases x) simp_all

lemma fdiv_NaN_right: "fdiv x NaN = NaN"
  by (cases x) simp_all

lemma fadd_NaN_right: "fadd x NaN = NaN"
  by (cases x) simp_all

lemma Recall_row_liked_0:
  "LIKED r = 0 \<Longrightarrow>
     Recall_row r = (if TP r = 0 then NaN else inf_of_sign (real_of_int (TP r)))"
  by (simp add: Recall_row_def truediv_def of_int64_def)

text \<open>
  C6. On a row with \<open>liked = 0\<close> the value of Recall is not a finite number, so in
  particular it does not compare equal to 0: it is NaN when \<open>TP = 0\<close> (as in every row
  with \<open>0 \<le> TP \<le> liked\<close>), and an infinity otherwise.
\<close>

theorem Recall_liked_0_undefined:
  assumes "i < length (conf_rows df)" and "LIKED (conf_rows df ! i) = 0"
  shows "\<exists>s v. Simple_calc_per_user_from_confusion_df (Recall k) df = Inr s
     \<and> s ! i = (uid (conf_rows df ! i), v)
     \<and> \<not> isfinite v \<and> \<not> feq v (Fin 0)
     \<and> (TP (conf_rows df ! i) = 0 \<longrightarrow> v = NaN)"
  using assms
  by (simp add: Simple_calc_per_user_from_confusion_df_def Recall_row_liked_0 inf_of_sign_def)

theorem Recall_liked_0_undefined_witness:
  "\<exists>s. Simple_calc_per_user_from_confusion_df (Recall 2)
         (NoTN [\<lparr>uid = 4, LIKED = 0, TP = 0, FP = 2, FN = 0\<rparr>]) = Inr s
       \<and> s ! 0 = (4, NaN)"
  using Recall_liked_0_undefined
    [of 0 "NoTN [\<lparr>uid = 4, LIKED = 0, TP = 0, FP = 2, FN = 0\<rparr>]" 2]
  by auto

lemma F1Beta_row_liked_0: "LIKED r = 0 \<Longrightarrow> TP r = 0 \<Longrightarrow> F1Beta_row k beta_sqr r = NaN"
  by (simp add: F1Beta_row_def F1Beta_formula_def truediv_def of_int64_def Let_def
      fmul_NaN_right fdiv_NaN_right fadd_NaN_right)

lemma F1Beta_calc_per_user_overflow:
  "square_overflows beta \<Longrightarrow> F1Beta_calc_per_user k beta df = Inl OverflowError"
  by (simp add: F1Beta_calc_per_user_def float_square_def)

lemma F1Beta_calc_per_user_in_range:
  "\<not> square_overflows beta \<Longrightarrow>
     F1Beta_calc_per_user k beta df
       = Inr (map (\<lambda>r. (uid r, F1Beta_row k (fmul beta beta) r)) (conf_rows df))"
  by (simp add: F1Beta_calc_per_user_def float_square_def)

text \<open>
  C10, as the code has it. On a row with \<open>liked = 0\<close> and \<open>TP = 0\<close> the value of F1Beta
  is NaN, for every \<open>k\<close> and every \<open>beta\<close> whose square is in the float64 range (also an
  infinite or NaN \<open>beta\<close>): the recall is NaN, so the comparison \<open>r_k == 0.0\<close> is false
  and the row is not set to 0. For a \<open>beta\<close> whose square overflows the calculation raises
  OverflowError and has no value.
\<close>

theorem F1Beta_liked_0_NaN:
  assumes "i < length (conf_rows df)"
    and "LIKED (conf_rows df ! i) = 0" and "TP (conf_rows df ! i) = 0"
  shows "(\<not> square_overflows beta \<longrightarrow>
           (\<exists>s. Simple_calc_per_user_from_confusion_df (F1Beta k beta) df = Inr s
              \<and> s ! i = (uid (conf_rows df ! i), NaN)))
     \<and> (square_overflows beta \<longrightarrow>
           Simple_calc_per_user_from_confusion_df (F1Beta k beta) df = Inl OverflowError)
     \<and> \<not> feq (Recall_row (conf_rows df ! i)) (Fin 0)"
  using assms
  by (simp add: Simple_calc_per_user_from_confusion_df_def F1Beta_calc_per_user_overflow
      F1Beta_calc_per_user_in_range F1Beta_row_liked_0 Recall_row_liked_0)

theorem F1Beta_liked_0_NaN_witness:
  "\<exists>s. Simple_calc_per_user_from_confusion_df (F1Beta 2 (Fin 1))
         (NoTN [\<lparr>uid = 4, LIKED = 0, TP = 0, FP = 2, FN = 0\<rparr>]) = Inr s
       \<and> s ! 0 = (4, NaN)"
  using F1Beta_liked_0_NaN
    [of 0 "NoTN [\<lparr>uid = 4, LIKED = 0, TP = 0, FP = 2, FN = 0\<rparr>]" "Fin 1" 2]
  by simp

text \<open>
  C10, for every \<open>beta\<close>, fails: at \<open>beta = 2^512\<close> the calculation on a table with such
  a row raises OverflowError.
\<close>

theorem F1Beta_liked_0_NaN_counterexample:
  "Simple_calc_per_user_from_confusion_df (F1Beta 2 (Fin (2 ^ 512)))
     (NoTN [\<lparr>uid = 4, LIKED = 0, TP = 0, FP = 2, FN = 0\<rparr>]) = Inl OverflowError"
  by (simp add: Simple_calc_per_user_from_confusion_df_def F1Beta_calc_per_user_def
      float_square_def)

lemma F1Beta_formula_0_0: "F1Beta_formula b (Fin 0) (Fin 0) = NaN"
  by (cases b) (simp_all add: F1Beta_formula_def inf_of_sign_def)

lemma F1Beta_row_0_0:
  "Precision_row k r = Fin 0 \<Longrightarrow> Recall_row r = Fin 0 \<Longrightarrow> F1Beta_row k beta_sqr r = Fin 0"
  by (simp add: F1Beta_row_def Precision_row_def Recall_row_def Let_def)

text \<open>
  C5, as the code has it. On a row where precision \<open>TP / k\<close> and recall \<open>TP / liked\<close> are
  both the number 0, the value of F1Beta is 0 for every \<open>beta\<close> whose square is in the
  float64 range (also an infinite or NaN \<open>beta\<close>), while the formula alone gives NaN
  there. For a \<open>beta\<close> whose square overflows the calculation raises OverflowError and
  has no value.
\<close>

theorem F1Beta_zero_precision_recall:
  assumes "i < length (conf_rows df)"
    and "Precision_row k (conf_rows df ! i) = Fin 0"
    and "Recall_row (conf_rows df ! i) = Fin 0"
  shows "(\<not> square_overflows beta \<longrightarrow>
           (\<exists>s. Simple_calc_per_user_from_confusion_df (F1Beta k beta) df = Inr s
              \<and> s ! i = (uid (conf_rows df ! i), Fin 0)))
     \<and> (square_overflows beta \<longrightarrow>
           Simple_calc_per_user_from_confusion_df (F1Beta k beta) df = Inl OverflowError)
     \<and> F1Beta_formula (fmul beta beta) (Precision_row k (conf_rows df ! i))
          (Recall_row (conf_rows df ! i)) = NaN"
  using assms
  by (simp add: Simple_calc_per_user_from_confusion_df_def F1Beta_calc_per_user_overflow
      F1Beta_calc_per_user_in_range F1Beta_row_0_0 F1Beta_formula_0_0)

theorem F1Beta_zero_precision_recall_witness:
  "\<exists>s. Simple_calc_per_user_from_confusion_df (F1Beta 2 (Fin 1))
         (NoTN [\<lparr>uid = 4, LIKED = 3, TP = 0, FP = 2, FN = 3\<rparr>]) = Inr s
       \<and> s ! 0 = (4, Fin 0)"
proof -
  let ?df = "NoTN [\<lparr>uid = 4, LIKED = 3, TP = 0, FP = 2, FN = 3\<rparr>]"
  have p: "Precision_row 2 (conf_rows ?df ! 0) = Fin 0"
    by (simp add: Precision_row_def truediv_def of_int64_def)
  have r: "Recall_row (conf_rows ?df ! 0) = Fin 0"
    by (simp add: Recall_row_def truediv_def of_int64_def)
  from F1Beta_zero_precision_recall [of 0 ?df 2 "Fin 1", OF _ p r] show ?thesis
    by simp
qed

text \<open>
  C5, for every \<open>beta\<close>, fails: at \<open>beta = 2^512\<close> the calculation on a table with a row
  of precision 0 and recall 0 raises OverflowError.
\<close>

theorem F1Beta_zero_precision_recall_counterexample:
  "Simple_calc_per_user_from_confusion_df (F1Beta 2 (Fin (2 ^ 512)))
     (NoTN [\<lparr>uid = 4, LIKED = 3, TP = 0, FP = 2, FN = 3\<rparr>]) = Inl OverflowError"
  by (simp add: Simple_calc_per_user_from_confusion_df_def F1Beta_calc_per_user_def
      float_square_def)

subsection \<open>Accuracy and MCC\<close>

lemma wrap64_0: "wrap64 0 = 0"
  by (simp add: wrap64_def)

lemma MCC_row_zero_product:
  assumes "0 \<le> TP r" and "0 \<le> FP r" and "0 \<le> FN r" and "0 \<le> tn"
    and "(TP r + FP r) * (TP r + FN r) * (tn + FP r) * (tn + FN r) = 0"
  shows "TP r * tn - FP r * FN r = 0 \<and> MCC_row (r, tn) = Fin 0"
proof -
  from assms(5)
  consider "TP r + FP r = 0" | "TP r + FN r = 0" | "tn + FP r = 0" | "tn + FN r = 0"
    by auto
  then have num: "TP r * tn - FP r * FN r = 0"
  proof cases
    case 1
    with assms(1,2) have "TP r = 0" and "FP r = 0"
      by linarith+
    then show ?thesis by simp
  next
    case 2
    with assms(1,3) have "TP r = 0" and "FN r = 0"
      by linarith+
    then show ?thesis by simp
  next
    case 3
    with assms(2,4) have "tn = 0" and "FP r = 0"
      by linarith+
    then show ?thesis by simp
  next
    case 4
    with assms(3,4) have "tn = 0" and "FN r = 0"
      by linarith+
    then show ?thesis by simp
  qed
  have "mcc_product (r, tn) = 0"
    unfolding mcc_product_def prod.case assms(5) by (rule wrap64_0)
  then have "mcc_denominator (r, tn) = Fin 0"
    by (simp add: mcc_denominator_def of_int64_def)
  with num show ?thesis
    by (simp add: MCC_row_def)
qed

text \<open>
  C4. On a row of nonnegative counts whose product
  \<open>(TP+FP)(TP+FN)(TN+FP)(TN+FN)\<close> is 0, the numerator \<open>TP\<cdot>TN - FP\<cdot>FN\<close> is 0 as well, and
  the per-user value of MCC is exactly 0. The row is taken from the table as the metric
  uses it, that is with the column \<open>TN\<close> that the table has or that the call adds.
\<close>

theorem MCC_zero_denominator:
  assumes "i < length (set_TN k c df)" and "set_TN k c df ! i = (r, tn)"
    and "0 \<le> TP r" and "0 \<le> FP r" and "0 \<le> FN r" and "0 \<le> tn"
    and "(TP r + FP r) * (TP r + FN r) * (tn + FP r) * (tn + FN r) = 0"
  shows "TP r * tn - FP r * FN r = 0
     \<and> (\<exists>s. snd (Classification_calc_per_user_from_confusion_df (MCC k) df c) = Inr s
           \<and> s ! i = (uid r, Fin 0))"
  using MCC_row_zero_product [OF assms(3-7)] assms(1,2)
  by (simp add: Classification_calc_per_user_from_confusion_df_def Let_def)

theorem MCC_zero_denominator_witness:
  "(0::int) * 3 - 2 * 0 = 0
     \<and> (\<exists>s. snd (Classification_calc_per_user_from_confusion_df (MCC 2)
               (NoTN [\<lparr>uid = 4, LIKED = 0, TP = 0, FP = 2, FN = 0\<rparr>]) [1, 2, 3, 4, 5]) = Inr s
           \<and> s ! 0 = (4, Fin 0))"
  using MCC_zero_denominator [of 0 2 "[1, 2, 3, 4, 5]"
      "NoTN [\<lparr>uid = 4, LIKED = 0, TP = 0, FP = 2, FN = 0\<rparr>]"
      "\<lparr>uid = 4, LIKED = 0, TP = 0, FP = 2, FN = 0\<rparr>" 3]
  by (simp add: len_def)

lemma Accuracy_row_bounds:
  assumes "0 \<le> TP r" and "TP r \<le> k" and "0 \<le> FN r"
    and "0 \<le> len c - k - FN r" and "0 < len c"
  shows "\<exists>a. Accuracy_row c (r, len c - k - FN r) = Fin a \<and> 0 \<le> a \<and> a \<le> 1"
proof -
  let ?n = "TP r + (len c - k - FN r)"
  have "0 \<le> ?n" and "?n \<le> len c"
    using assms by linarith+
  then have "0 \<le> real_of_int ?n / real_of_int (len c)"
    and "real_of_int ?n / real_of_int (len c) \<le> 1"
    using assms(5) by (simp_all add: divide_le_eq_1)
  then show ?thesis
    using assms(5) by (simp add: Accuracy_row_def truediv_def of_int64_def)
qed

text \<open>
  C8, as the code has it. For a row with \<open>0 \<le> TP \<le> k\<close>, \<open>0 \<le> FN\<close> and
  \<open>TN = catalog_size - k - FN \<ge> 0\<close> (so that \<open>catalog_size \<ge> k\<close>), and a catalog that is
  not empty, the value of Accuracy is a number between 0 and 1.
\<close>

theorem Accuracy_in_unit_interval:
  assumes "i < length (set_TN k c df)" and "set_TN k c df ! i = (r, tn)"
    and "tn = len c - k - FN r"
    and "0 \<le> TP r" and "TP r \<le> k" and "0 \<le> FN r" and "0 \<le> tn" and "0 < len c"
  shows "\<exists>s a. snd (Classification_calc_per_user_from_confusion_df (Accuracy k) df c) = Inr s
     \<and> s ! i = (uid r, Fin a) \<and> 0 \<le> a \<and> a \<le> 1"
proof -
  from assms(3,7) have "0 \<le> len c - k - FN r"
    by simp
  from Accuracy_row_bounds [OF assms(4,5,6) this assms(8)] assms(1,2,3)
  show ?thesis
    by (auto simp: Classification_calc_per_user_from_confusion_df_def Let_def)
qed

theorem Accuracy_in_unit_interval_witness:
  "\<exists>s a. snd (Classification_calc_per_user_from_confusion_df (Accuracy 2)
             (NoTN [\<lparr>uid = 4, LIKED = 2, TP = 1, FP = 1, FN = 1\<rparr>]) [1, 2, 3, 4, 5]) = Inr s
     \<and> s ! 0 = (4, Fin a) \<and> 0 \<le> a \<and> a \<le> 1"
  using Accuracy_in_unit_interval [of 0 2 "[1, 2, 3, 4, 5]"
      "NoTN [\<lparr>uid = 4, LIKED = 2, TP = 1, FP = 1, FN = 1\<rparr>]"
      "\<lparr>uid = 4, LIKED = 2, TP = 1, FP = 1, FN = 1\<rparr>" 2]
  by (simp add: len_def)

text \<open>
  C8, as the specification states it, fails on the empty catalog: with \<open>k = 0\<close> and a row
  of zeros every hypothesis holds (\<open>catalog_size = 0 \<ge> k\<close>), and the value is NaN.
\<close>

theorem Accuracy_in_unit_interval_counterexample:
  "snd (Classification_calc_per_user_from_confusion_df (Accuracy 0)
         (NoTN [\<lparr>uid = 0, LIKED = 0, TP = 0, FP = 0, FN = 0\<rparr>]) []) = Inr [(0, NaN)]"
  by (simp add: Classification_calc_per_user_from_confusion_df_def Accuracy_row_def
      Let_def truediv_def of_int64_def len_def)

text \<open>
  C9. \<open>calc_per_user_from_confusion_df\<close> of a \<open>ClassificationMetric\<close> leaves the caller's
  table with a column \<open>TN\<close>: a table without the column gets \<open>len(catalog) - k - FN\<close>, a
  table with the column is returned as it is, and the values are computed from that
  column, so that the value of MCC does not depend on the catalog then. The rows are the
  same in both cases.
\<close>

theorem calc_per_user_from_confusion_df_sets_TN:
  "fst (Classification_calc_per_user_from_confusion_df m (NoTN rs) c)
       = WithTN (map (\<lambda>r. (r, len c - classification_k m - FN r)) rs)
   \<and> fst (Classification_calc_per_user_from_confusion_df m (WithTN rts) c) = WithTN rts
   \<and> snd (Classification_calc_per_user_from_confusion_df m (WithTN rts) c)
       = Classification_calc_per_user m rts c
   \<and> snd (Classification_calc_per_user_from_confusion_df (MCC k) (WithTN rts) c)
       = snd (Classification_calc_per_user_from_confusion_df (MCC k) (WithTN rts) c')
   \<and> snd (Classification_calc_per_user_from_confusion_df (Accuracy k) (WithTN rts) c)
       = Inr (map (\<lambda>rt. (uid (fst rt), truediv (TP (fst rt) + snd rt) (len c))) rts)
   \<and> has_TN (fst (Classification_calc_per_user_from_confusion_df m df c))
   \<and> conf_rows (fst (Classification_calc_per_user_from_confusion_df m df c)) = conf_rows df"
  by (cases df)
    (simp_all add: Classification_calc_per_user_from_confusion_df_def Accuracy_row_def
      Let_def case_prod_unfold comp_def)

subsection \<open>The exceptions of the driver\<close>

lemma snd_eval_metric:
  "length (snd (eval_metric ds merged c k m calls)) = Suc (length calls)"
  by (simp add: eval_metric_def Let_def)






lemma names_of_simps:
  "names_of [] = []" "names_of ((k, names) # km) = names @ names_of km"
  by (simp_all add: names_of_def)






















subsection \<open>The calls of calc\_confusions\<close>

lemma calls_metrics_loop:
  "fst (metrics_loop ds metrics merged c k names results calls) = Inr res
   \<Longrightarrow> length (snd (metrics_loop ds metrics merged c k names results calls))
       = length calls + length names"
proof (induction names arbitrary: results calls)
  case Nil
  then show ?case by simp
next
  case (Cons n names)
  from Cons.prems obtain m where m: "map_of metrics n = Some m"
    by (cases "map_of metrics n") auto
  obtain r calls' where e: "eval_metric ds merged c k m calls = (r, calls')"
    by (cases "eval_metric ds merged c k m calls")
  from snd_eval_metric [of ds merged c k m calls] e have l: "length calls' = Suc (length calls)"
    by simp
  from Cons.prems m e obtain v where v: "r = Inr v"
    by (cases r) auto
  from Cons.prems m e v
  have "fst (metrics_loop ds metrics merged c k names (dict_set results n v) calls') = Inr res"
    by simp
  from Cons.IH [OF this] m e v l show ?case
    by simp
qed

lemma calls_k_loop:
  "fst (k_loop ds metrics merged c km results calls) = Inr res
   \<Longrightarrow> length (snd (k_loop ds metrics merged c km results calls))
       = length calls + length (names_of km)"
proof (induction km arbitrary: results calls)
  case Nil
  then show ?case by (simp add: names_of_simps)
next
  case (Cons p km)
  obtain k names where p: "p = (k, names)" by (cases p)
  obtain r calls' where l: "metrics_loop ds metrics merged c k names results calls = (r, calls')"
    by (cases "metrics_loop ds metrics merged c k names results calls")
  from Cons.prems p l obtain results' where r: "r = Inr results'"
    by (cases r) auto
  from calls_metrics_loop [of ds metrics merged c k names results calls results'] l r
  have len: "length calls' = length calls + length names"
    by simp
  from Cons.prems p l r have "fst (k_loop ds metrics merged c km results' calls') = Inr res"
    by simp
  from Cons.IH [OF this] p l r len show ?case
    by (simp add: names_of_simps)
qed

lemma length_names_k_map_append:
  "length (names_of (k_map_append km k n)) = Suc (length (names_of km))"
  by (induction km k n rule: k_map_append.induct) (simp_all add: names_of_simps)

lemma length_names_build_k_map:
  "length (names_of (build_k_map ms km)) = length (names_of km) + length ms"
  by (induction ms km rule: build_k_map.induct) (simp_all add: length_names_k_map_append)

text \<open>
  A call of the driver that returns has called \<open>calc_confusions\<close> once for each metric
  of the dictionary, whatever the values of \<open>k\<close>.
\<close>

lemma calc_confusions_called_for_every_metric:
  assumes "fst (calc_classification_metrics_logged ds metrics merged c) = Inr res"
  shows "length (snd (calc_classification_metrics_logged ds metrics merged c)) = length metrics"
  using calls_k_loop [of ds metrics merged c "build_k_map metrics []" "[]" "[]" res] assms
  by (simp add: calc_classification_metrics_logged_def length_names_build_k_map names_of_simps)

text \<open>
  C1 does not hold of the code. For two metrics without debiasing that share \<open>k = 1\<close>,
  the driver calls \<open>calc_confusions\<close> twice with the same table and the same \<open>k\<close>:
  the call stands inside the loop over the metrics of a group, not before it.
\<close>

theorem calc_confusions_called_twice_for_one_k:
  "calc_classification_metrics_logged (\<lambda>d m. m)
      [(''prec'', Simple (Precision 1)), (''rec'', Simple (Recall 1))]
      [\<lparr>User = 0, Item = 0, Rank = Some 1, interacted = True\<rparr>] None
   = (Inr [(''prec'', Fin 1), (''rec'', Fin 1)],
      [([\<lparr>User = 0, Item = 0, Rank = Some 1, interacted = True\<rparr>], 1),
       ([\<lparr>User = 0, Item = 0, Rank = Some 1, interacted = True\<rparr>], 1)])"
  by (simp add: calc_classification_metrics_logged_def eval_metric_def Let_def
       Simple_calc_from_confusion_df_def Simple_calc_per_user_from_confusion_df_def
       calc_confusions_def groupby_keys_def group_of_def is_hit_def mean_def
       Precision_row_def Recall_row_def truediv_def of_int64_def)

end
